theory Spec2Isabelle
  imports Main "HOL-Library.Sublist"
begin

section \<open>The Swift action runner (core/swiftAction/swiftrunner.py)\<close>

text \<open>
  The runner is a subclass of the generic action proxy's \<open>ActionRunner\<close>. It overrides
  three hooks: \<open>epilogue\<close> (append the bootstrap fragment and the call of the entry point
  to the source file), \<open>build\<close> (run the Swift compiler) and \<open>env\<close> (the environment of
  one invocation). Exceptions are values of the type \<open>error\<close>; files, the console and
  the environment dictionaries are explicit state.
\<close>

subsection \<open>Constants of the module\<close>

datatype error = IOError | OSError | AttributeError | TypeError | RuntimeError

definition SRC_EPILOGUE_FILE :: string where
  "SRC_EPILOGUE_FILE = ''./epilogue.swift''"

definition DEST_SCRIPT_FILE :: string where
  "DEST_SCRIPT_FILE = ''/swiftAction/action.swift''"

definition DEST_BIN_FILE :: string where
  "DEST_BIN_FILE = ''/swiftAction/action''"

definition BUILD_PROCESS :: "string list" where
  "BUILD_PROCESS = [''swiftc'', ''-v'', ''-Xfrontend'', ''-debug-time-function-bodies'',
     ''-O'', DEST_SCRIPT_FILE, ''-o'', DEST_BIN_FILE]"

definition newline :: char where
  "newline = CHR 0x0A"

subsection \<open>epilogue\<close>

text \<open>
  The file system is a map from paths to the text of the files.
  \<open>codecs.open(path, "r", "utf-8")\<close> followed by \<open>read()\<close> gives the text of the file,
  or raises \<open>IOError\<close> when there is no such file. The writer \<open>fp\<close> is the text written
  to the destination so far (the proxy has written the user's source to it before it
  calls \<open>epilogue\<close>); \<open>fp.write(s)\<close> appends.
\<close>

type_synonym filesystem = "string \<rightharpoonup> string"

definition codecs_open_read :: "filesystem \<Rightarrow> string \<Rightarrow> error + string" where
  "codecs_open_read fs path = (case fs path of None \<Rightarrow> Inl IOError | Some text \<Rightarrow> Inr text)"

definition fp_write :: "string \<Rightarrow> string \<Rightarrow> string" where
  "fp_write s fp = fp @ s"

text \<open>
  The initialization message is a dictionary from keys to text (the code, the name of
  the entry point). \<open>"_run_main(%s)\n" % main_function\<close> puts the text of
  \<open>main_function\<close> between the two fixed parts.
\<close>

type_synonym init_message = "string \<rightharpoonup> string"

definition main_function :: "init_message \<Rightarrow> string" where
  "main_function init_message =
     (if init_message ''main'' \<noteq> None then the (init_message ''main'') else ''main'')"

definition run_main_statement :: "string \<Rightarrow> string" where
  "run_main_statement name = ''_run_main('' @ name @ '')'' @ [newline]"

definition epilogue :: "filesystem \<Rightarrow> string \<Rightarrow> init_message \<Rightarrow> (error + unit) \<times> string" where
  "epilogue fs fp init_message =
     (let name = main_function init_message
      in case codecs_open_read fs SRC_EPILOGUE_FILE of
           Inl e \<Rightarrow> (Inl e, fp)
         | Inr ep \<Rightarrow>
             (let fp1 = fp_write ep fp;
                  fp2 = fp_write (run_main_statement name) fp1
              in (Inr (), fp2)))"

subsection \<open>Python values and their text\<close>

text \<open>
  The values a message decoded from JSON is made of, and objects of any other class
  (\<open>PObj\<close>: a truthy object without a \<open>get\<close> method that \<open>json\<close> does not know, such as
  a non-empty set; the number tells such objects apart). A dictionary is the list of its
  items in iteration order; its keys are text, as in every dictionary decoded from JSON.
  Text is a list of code points below 256. Floating-point numbers are not modelled.
\<close>

datatype pyval =
    PNone
  | PBool bool
  | PInt int
  | PStr string
  | PList "pyval list"
  | PDict "(string \<times> pyval) list"
  | PObj nat

fun truthy :: "pyval \<Rightarrow> bool" where
  "truthy PNone = False"
| "truthy (PBool b) = b"
| "truthy (PInt i) = (i \<noteq> 0)"
| "truthy (PStr s) = (s \<noteq> [])"
| "truthy (PList xs) = (xs \<noteq> [])"
| "truthy (PDict kvs) = (kvs \<noteq> [])"
| "truthy (PObj n) = True"

text \<open>\<open>d.get(key, default)\<close>; only a dictionary has the method.\<close>

fun py_get :: "pyval \<Rightarrow> string \<Rightarrow> pyval \<Rightarrow> error + pyval" where
  "py_get (PDict kvs) key dflt =
     Inr (case map_of kvs key of Some v \<Rightarrow> v | None \<Rightarrow> dflt)"
| "py_get _ key dflt = Inl AttributeError"

definition digit_char :: "nat \<Rightarrow> char" where
  "digit_char n = ''0123456789abcdef'' ! n"

fun decimal :: "nat \<Rightarrow> string" where
  "decimal n = (if n < 10 then [digit_char n] else decimal (n div 10) @ [digit_char (n mod 10)])"

declare decimal.simps [simp del]

definition str_int :: "int \<Rightarrow> string" where
  "str_int i = (if i < 0 then ''-'' @ decimal (nat (- i)) else decimal (nat i))"

definition hex2 :: "nat \<Rightarrow> string" where
  "hex2 n = [digit_char (n div 16 mod 16), digit_char (n mod 16)]"

definition hex4 :: "nat \<Rightarrow> string" where
  "hex4 n = [digit_char (n div 4096 mod 16), digit_char (n div 256 mod 16)] @ hex2 n"

definition zfill :: "nat \<Rightarrow> string \<Rightarrow> string" where
  "zfill w s = replicate (w - length s) (CHR ''0'') @ s"

fun join :: "string \<Rightarrow> string list \<Rightarrow> string" where
  "join sep [] = []"
| "join sep [s] = s"
| "join sep (s # t # ss) = s @ sep @ join sep (t # ss)"

text \<open>\<open>repr\<close> of a byte string, and of a list of byte strings (what \<open>print\<close> shows for a list).\<close>

definition repr_char :: "char \<Rightarrow> char \<Rightarrow> string" where
  "repr_char q c =
     (if c = q \<or> c = CHR 0x5C then [CHR 0x5C, c]
      else if c = CHR 0x09 then [CHR 0x5C, CHR ''t'']
      else if c = newline then [CHR 0x5C, CHR ''n'']
      else if c = CHR 0x0D then [CHR 0x5C, CHR ''r'']
      else if (of_char c :: nat) < 32 \<or> 127 \<le> (of_char c :: nat)
        then [CHR 0x5C, CHR ''x''] @ hex2 (of_char c)
      else [c])"

definition repr_str :: "string \<Rightarrow> string" where
  "repr_str s =
     (let q = (if CHR 0x27 \<in> set s \<and> CHR 0x22 \<notin> set s then CHR 0x22 else CHR 0x27)
      in [q] @ concat (map (repr_char q) s) @ [q])"

definition repr_str_list :: "string list \<Rightarrow> string" where
  "repr_str_list xs = ''['' @ join '', '' (map repr_str xs) @ '']''"

subsection \<open>json.dumps with its default arguments\<close>

text \<open>
  Text is written between double quotes; the backslash, the double quote and every
  character outside the printable ASCII range are escaped (\<open>ensure_ascii\<close>).
\<close>

definition escape_char :: "char \<Rightarrow> string" where
  "escape_char c =
     (if c = CHR 0x5C then [CHR 0x5C, CHR 0x5C]
      else if c = CHR 0x22 then [CHR 0x5C, CHR 0x22]
      else if c = CHR 0x08 then [CHR 0x5C, CHR ''b'']
      else if c = CHR 0x0C then [CHR 0x5C, CHR ''f'']
      else if c = newline then [CHR 0x5C, CHR ''n'']
      else if c = CHR 0x0D then [CHR 0x5C, CHR ''r'']
      else if c = CHR 0x09 then [CHR 0x5C, CHR ''t'']
      else if (of_char c :: nat) < 32 \<or> 126 < (of_char c :: nat)
        then [CHR 0x5C, CHR ''u''] @ hex4 (of_char c)
      else [c])"

definition encode_basestring_ascii :: "string \<Rightarrow> string" where
  "encode_basestring_ascii s = [CHR 0x22] @ concat (map escape_char s) @ [CHR 0x22]"

text \<open>
  The encoder writes a list as \<open>[a, b]\<close> and a dictionary as \<open>{"k": a, "l": b}\<close>
  (separators \<open>", "\<close> and \<open>": "\<close>, no indentation); an object it does not know raises
  \<open>TypeError\<close>. Entering a list or a dictionary takes one level of the interpreter's
  recursion: \<open>depth\<close> is the number of levels that are left, and with none left the
  encoder raises \<open>RuntimeError\<close> (maximum recursion depth exceeded).
\<close>

fun encode :: "nat \<Rightarrow> pyval \<Rightarrow> error + string"
  and encode_list :: "nat \<Rightarrow> pyval list \<Rightarrow> error + string list"
  and encode_items :: "nat \<Rightarrow> (string \<times> pyval) list \<Rightarrow> error + string list" where
  "encode depth PNone = Inr ''null''"
| "encode depth (PBool b) = Inr (if b then ''true'' else ''false'')"
| "encode depth (PInt i) = Inr (str_int i)"
| "encode depth (PStr s) = Inr (encode_basestring_ascii s)"
| "encode depth (PList xs) =
     (if depth = 0 then Inl RuntimeError
      else case encode_list (depth - 1) xs of
             Inl e \<Rightarrow> Inl e
           | Inr ss \<Rightarrow> Inr (''['' @ join '', '' ss @ '']''))"
| "encode depth (PDict kvs) =
     (if depth = 0 then Inl RuntimeError
      else case encode_items (depth - 1) kvs of
             Inl e \<Rightarrow> Inl e
           | Inr ss \<Rightarrow> Inr (''{'' @ join '', '' ss @ ''}''))"
| "encode depth (PObj n) = Inl TypeError"
| "encode_list depth [] = Inr []"
| "encode_list depth (x # xs) =
     (case encode depth x of Inl e \<Rightarrow> Inl e
      | Inr s \<Rightarrow> (case encode_list depth xs of Inl e \<Rightarrow> Inl e | Inr ss \<Rightarrow> Inr (s # ss)))"
| "encode_items depth [] = Inr []"
| "encode_items depth ((k, v) # kvs) =
     (case encode depth v of Inl e \<Rightarrow> Inl e
      | Inr s \<Rightarrow>
         (case encode_items depth kvs of Inl e \<Rightarrow> Inl e
          | Inr ss \<Rightarrow> Inr ((encode_basestring_ascii k @ '': '' @ s) # ss)))"

text \<open>
  \<open>json.dumps(v)\<close>, called where the recursion limit of the interpreter leaves \<open>limit\<close>
  levels of nesting below the outermost value (the call itself has been made, so the
  outermost value is entered).
\<close>

definition dumps :: "nat \<Rightarrow> pyval \<Rightarrow> error + string" where
  "dumps limit v = encode (Suc limit) v"

subsection \<open>build\<close>

text \<open>
  \<open>datetime.datetime.now().time()\<close> is a time of day; \<open>str\<close> of it is \<open>HH:MM:SS\<close>,
  followed by \<open>.ffffff\<close> when the microseconds are not zero.
\<close>

record pytime =
  hour :: nat
  minute :: nat
  second :: nat
  microsecond :: nat

definition str_time :: "pytime \<Rightarrow> string" where
  "str_time t =
     zfill 2 (decimal (hour t)) @ '':'' @ zfill 2 (decimal (minute t)) @ '':''
       @ zfill 2 (decimal (second t))
       @ (if microsecond t \<noteq> 0 then ''.'' @ zfill 6 (decimal (microsecond t)) else [])"

text \<open>
  The compiler as the operating system runs it: what the finished child has written to
  its two streams, and its exit status. \<open>Popen\<close> raises when the program cannot be
  started. The two streams of the runner itself are \<open>printed\<close> (what \<open>print\<close> writes) and
  \<open>errors\<close>, which the child inherits: only \<open>stdout=PIPE\<close> is passed to \<open>Popen\<close>, so
  \<open>communicate\<close> returns the child's standard output and \<open>None\<close>.
\<close>

record child =
  returncode :: int
  stdout_data :: string
  stderr_data :: string

record stdio =
  printed :: string
  errors :: string

definition py_print :: "string \<Rightarrow> stdio \<Rightarrow> stdio" where
  "py_print s io = io\<lparr>printed := printed io @ s @ [newline]\<rparr>"

definition str_opt :: "string option \<Rightarrow> string" where
  "str_opt x = (case x of None \<Rightarrow> ''None'' | Some s \<Rightarrow> s)"

definition communicate :: "child \<Rightarrow> stdio \<Rightarrow> (string option \<times> string option) \<times> stdio" where
  "communicate p io = ((Some (stdout_data p), None), io\<lparr>errors := errors io @ stderr_data p\<rparr>)"

definition build ::
  "(string list \<Rightarrow> error + child) \<Rightarrow> pytime \<Rightarrow> pytime \<Rightarrow> stdio \<Rightarrow> (error + pyval) \<times> stdio" where
  "build Popen start finish io =
     (let io1 = py_print (str_time start @ '' Start compilation'') io;
          io2 = py_print (repr_str_list BUILD_PROCESS) io1
      in case Popen BUILD_PROCESS of
           Inl exn \<Rightarrow> (Inl exn, io2)
         | Inr p \<Rightarrow>
             (let ((out, err), io3) = communicate p io2;
                  io4 = py_print (str_opt out) io3;
                  io5 = py_print (str_opt err) io4;
                  io6 = py_print (str_time finish @ '' Finished compilation'') io5
              in (Inr PNone, io6)))"

subsection \<open>env\<close>

text \<open>
  Environments are dictionaries from names to text, held in a store of objects; a
  dictionary is known by its address, and \<open>env[k] = v\<close> updates the object at that
  address. The method of the base class, \<open>ActionRunner.env\<close>, belongs to the generic
  proxy; it is a parameter here: from the message and the store it raises, or returns
  the address of a dictionary and the store as it has left it. The second parameter,
  \<open>limit\<close>, is what the recursion limit of the interpreter leaves to \<open>json.dumps\<close>.
\<close>

type_synonym environ = "string \<rightharpoonup> string"
type_synonym store = "nat \<Rightarrow> environ"

definition setitem :: "nat \<Rightarrow> string \<Rightarrow> string \<Rightarrow> store \<Rightarrow> store" where
  "setitem a k v h = h(a := (h a)(k \<mapsto> v))"

definition run_args :: "pyval \<Rightarrow> error + pyval" where
  "run_args message = (if truthy message then py_get message ''value'' (PDict []) else Inr (PDict []))"

definition env ::
  "(pyval \<Rightarrow> store \<Rightarrow> (error + nat) \<times> store) \<Rightarrow> nat \<Rightarrow> pyval \<Rightarrow> store
     \<Rightarrow> (error + nat) \<times> store" where
  "env ActionRunner_env limit message h =
     (case ActionRunner_env message h of
        (Inl exn, h1) \<Rightarrow> (Inl exn, h1)
      | (Inr a, h1) \<Rightarrow>
          (case run_args message of
             Inl exn \<Rightarrow> (Inl exn, h1)
           | Inr args \<Rightarrow>
               (case dumps limit args of
                  Inl exn \<Rightarrow> (Inl exn, h1)
                | Inr text \<Rightarrow> (Inr a, setitem a ''WHISK_INPUT'' text h1))))"

subsection \<open>Surroundings used in the examples\<close>

text \<open>
  An operating system in which the compiler starts and finishes as \<open>p\<close>; a base class
  whose \<open>env\<close> returns the dictionary at address \<open>a\<close> and changes nothing; a store whose
  dictionary at address 0 binds \<open>PATH\<close>; a file system that holds the bootstrap fragment;
  the empty list inside \<open>n\<close> lists.
\<close>

definition started :: "child \<Rightarrow> string list \<Rightarrow> error + child" where
  "started p argv = Inr p"

definition returns_dict :: "nat \<Rightarrow> pyval \<Rightarrow> store \<Rightarrow> (error + nat) \<times> store" where
  "returns_dict a message h = (Inr a, h)"

definition ambient :: store where
  "ambient = (\<lambda>a. Map.empty)(0 := [''PATH'' \<mapsto> ''/usr/bin''])"

definition with_fragment :: "string \<Rightarrow> filesystem" where
  "with_fragment text = [SRC_EPILOGUE_FILE \<mapsto> text]"

fun nest :: "nat \<Rightarrow> pyval" where
  "nest 0 = PList []"
| "nest (Suc n) = PList [nest n]"

definition nine_oclock :: pytime where
  "nine_oclock = \<lparr>hour = 9, minute = 0, second = 0, microsecond = 0\<rparr>"

definition five_past_nine :: pytime where
  "five_past_nine = \<lparr>hour = 9, minute = 5, second = 7, microsecond = 250\<rparr>"

definition quiet :: stdio where
  "quiet = \<lparr>printed = [], errors = []\<rparr>"

section \<open>Properties\<close>

subsection \<open>The text functions on examples\<close>

lemma encode_basestring_ascii_example:
  "encode_basestring_ascii [CHR ''a'', CHR 0x22, newline, CHR 0xE9, CHR 0x7F]
     = [CHR 0x22, CHR ''a'', CHR 0x5C, CHR 0x22, CHR 0x5C, CHR ''n'',
        CHR 0x5C, CHR ''u'', CHR ''0'', CHR ''0'', CHR ''e'', CHR ''9'',
        CHR 0x5C, CHR ''u'', CHR ''0'', CHR ''0'', CHR ''7'', CHR ''f'', CHR 0x22]"
  by code_simp

lemma repr_str_list_example:
  "repr_str_list [''swiftc'', ''-v'']
     = [CHR ''['', CHR 0x27] @ ''swiftc'' @ [CHR 0x27, CHR '','', CHR '' '', CHR 0x27] @ ''-v''
         @ [CHR 0x27, CHR '']'']"
  by code_simp

lemma dumps_nested_example:
  "dumps 990 (PDict [(''a'', PList [PNone, PBool True, PInt (- 12)])])
     = Inr (''{'' @ [CHR 0x22] @ ''a'' @ [CHR 0x22] @ '': [null, true, -12]}'')"
  by code_simp

subsection \<open>The text that dumps writes has one line\<close>










subsection \<open>epilogue\<close>

text \<open>
  C5. When the initialization message has no key \<open>main\<close>, the name of the entry point
  is the literal \<open>main\<close>, and (the bootstrap fragment being there) the program that
  \<open>epilogue\<close> leaves in the source file ends with the statement \<open>_run_main(main)\<close>.
\<close>

theorem epilogue_default_entry_point:
  assumes "init_message ''main'' = None" and "fs SRC_EPILOGUE_FILE = Some ep"
  shows "main_function init_message = ''main'' \<and>
         epilogue fs source init_message = (Inr (), source @ ep @ ''_run_main(main)'' @ [newline])"
  using assms
  by (simp add: epilogue_def main_function_def codecs_open_read_def fp_write_def
      run_main_statement_def)

theorem epilogue_default_entry_point_witness:
  "main_function Map.empty = ''main'' \<and>
   epilogue (with_fragment ''// glue'') ''func main() {}'' Map.empty
     = (Inr (), ''func main() {}// glue_run_main(main)'' @ [newline])"
proof -
  have a: "(Map.empty :: init_message) ''main'' = None" by simp
  have b: "with_fragment ''// glue'' SRC_EPILOGUE_FILE = Some ''// glue''"
    by (simp add: with_fragment_def)
  show ?thesis
    using epilogue_default_entry_point
      [of Map.empty "with_fragment ''// glue''" "''// glue''" "''func main() {}''"] a b
    by simp
qed

text \<open>
  C6, as stated, asks for exactly one invocation statement at the end of the program,
  for every name. The name is not checked: with the name \<open>f)\<close>, a line break,
  \<open>_run_main(g\<close> the program ends with two invocation statements, \<open>_run_main(f)\<close> and
  \<open>_run_main(g)\<close>, each on a line of its own.
\<close>

theorem epilogue_two_calls_for_one_name:
  "main_function [''main'' \<mapsto> ''f)'' @ [newline] @ ''_run_main(g''] = ''f)'' @ [newline] @ ''_run_main(g'' \<and>
   epilogue (with_fragment ''// glue'') ''func f() {}; func g() {}''
       [''main'' \<mapsto> ''f)'' @ [newline] @ ''_run_main(g'']
     = (Inr (), ''func f() {}; func g() {}'' @ ''// glue''
                  @ ''_run_main(f)'' @ [newline] @ ''_run_main(g)'' @ [newline])"
  by (simp add: epilogue_def main_function_def codecs_open_read_def fp_write_def
      run_main_statement_def with_fragment_def)

text \<open>
  C6, amended. For every source text and every initialization message, the program is
  the source followed by the bootstrap fragment read from the template file and by the
  text \<open>_run_main(\<close>, the resolved name as it is, \<open>)\<close> and a line break, written once;
  nothing else is appended.
\<close>

theorem epilogue_fragment_then_one_call:
  assumes "fs SRC_EPILOGUE_FILE = Some ep"
  shows "epilogue fs source init_message
           = (Inr (), source @ ep @ run_main_statement (main_function init_message)) \<and>
         run_main_statement (main_function init_message)
           = ''_run_main('' @ main_function init_message @ '')'' @ [newline]"
  using assms
  by (simp add: epilogue_def codecs_open_read_def fp_write_def run_main_statement_def)

theorem epilogue_fragment_then_one_call_witness:
  "epilogue (with_fragment ''// glue'') ''func handleRequest() {}'' [''main'' \<mapsto> ''handleRequest'']
     = (Inr (), ''func handleRequest() {}// glue_run_main(handleRequest)'' @ [newline])"
proof -
  have b: "with_fragment ''// glue'' SRC_EPILOGUE_FILE = Some ''// glue''"
    by (simp add: with_fragment_def)
  show ?thesis
    using epilogue_fragment_then_one_call
      [of "with_fragment ''// glue''" "''// glue''" "''func handleRequest() {}''"
          "[''main'' \<mapsto> ''handleRequest'']"] b
    by (simp add: main_function_def run_main_statement_def)
qed

text \<open>
  C7. The program depends on nothing but the source text, the content of the template
  file and the entry \<open>main\<close> of the message: two runs that agree on these write the same
  text (and raise the same error, if any).
\<close>

theorem epilogue_deterministic:
  assumes "fs1 SRC_EPILOGUE_FILE = fs2 SRC_EPILOGUE_FILE" and "m1 ''main'' = m2 ''main''"
  shows "epilogue fs1 source m1 = epilogue fs2 source m2"
  unfolding epilogue_def main_function_def codecs_open_read_def assms ..

theorem epilogue_deterministic_witness:
  "epilogue (with_fragment ''// glue'') ''func f() {}'' [''main'' \<mapsto> ''f'', ''code'' \<mapsto> ''func f() {}'']
     = epilogue ((with_fragment ''// glue'')(DEST_BIN_FILE \<mapsto> ''old'')) ''func f() {}'' [''main'' \<mapsto> ''f'']"
proof -
  have a: "with_fragment ''// glue'' SRC_EPILOGUE_FILE
             = ((with_fragment ''// glue'')(DEST_BIN_FILE \<mapsto> ''old'')) SRC_EPILOGUE_FILE"
    by (simp add: with_fragment_def SRC_EPILOGUE_FILE_def DEST_BIN_FILE_def)
  have b: "[''main'' \<mapsto> ''f'', ''code'' \<mapsto> ''func f() {}''] ''main'' = [''main'' \<mapsto> ''f''] ''main''"
    by simp
  show ?thesis
    using epilogue_deterministic
      [of "with_fragment ''// glue''" "(with_fragment ''// glue'')(DEST_BIN_FILE \<mapsto> ''old'')"
          "[''main'' \<mapsto> ''f'', ''code'' \<mapsto> ''func f() {}'']" "[''main'' \<mapsto> ''f'']"
          "''func f() {}''"] a b
    by blast
qed

text \<open>
  C10. The name given under \<open>main\<close> is put between \<open>_run_main(\<close> and \<open>)\<close> as it is,
  whatever text it is: \<open>epilogue\<close> does not raise, and the program ends with exactly
  that line.
\<close>

theorem epilogue_entry_point_verbatim:
  assumes "init_message ''main'' = Some E" and "fs SRC_EPILOGUE_FILE = Some ep"
  shows "epilogue fs source init_message = (Inr (), source @ ep @ ''_run_main('' @ E @ '')'' @ [newline])"
  using assms
  by (simp add: epilogue_def main_function_def codecs_open_read_def fp_write_def
      run_main_statement_def)

theorem epilogue_entry_point_verbatim_witness:
  "epilogue (with_fragment ''// glue'') ''let x = 1'' [''main'' \<mapsto> ''1 + (''] 
     = (Inr (), ''let x = 1// glue_run_main(1 + ()'' @ [newline])"
proof -
  have a: "[''main'' \<mapsto> ''1 + (''] ''main'' = Some ''1 + (''" by simp
  have b: "with_fragment ''// glue'' SRC_EPILOGUE_FILE = Some ''// glue''"
    by (simp add: with_fragment_def)
  show ?thesis
    using epilogue_entry_point_verbatim
      [of "[''main'' \<mapsto> ''1 + ('']" "''1 + (''" "with_fragment ''// glue''" "''// glue''"
          "''let x = 1''"] a b
    by simp
qed

subsection \<open>build\<close>

lemma build_started:
  assumes "Popen BUILD_PROCESS = Inr p"
  shows "build Popen start finish io =
    (Inr PNone,
     \<lparr>printed = printed io @ str_time start @ '' Start compilation'' @ [newline]
        @ repr_str_list BUILD_PROCESS @ [newline]
        @ stdout_data p @ [newline]
        @ ''None'' @ [newline]
        @ str_time finish @ '' Finished compilation'' @ [newline],
      errors = errors io @ stderr_data p\<rparr>)"
  using assms
  by (simp add: build_def communicate_def py_print_def str_opt_def)

text \<open>
  C1, as stated, asks that \<open>build\<close> reports failure when the compiler exits with a
  status other than 0. It does not: after exit status 1 \<open>build\<close> returns \<open>None\<close> and
  prints exactly what it returns and prints after exit status 0.
\<close>

theorem build_same_after_exit_1_as_after_exit_0:
  "fst (build (started \<lparr>returncode = 1, stdout_data = ''swiftc'', stderr_data = ''''\<rparr>)
          nine_oclock five_past_nine quiet) = Inr PNone \<and>
   build (started \<lparr>returncode = 1, stdout_data = ''swiftc'', stderr_data = ''''\<rparr>)
          nine_oclock five_past_nine quiet
     = build (started \<lparr>returncode = 0, stdout_data = ''swiftc'', stderr_data = ''''\<rparr>)
          nine_oclock five_past_nine quiet"
  by (simp add: build_started started_def)

text \<open>
  C1, amended. \<open>build\<close> never reads the exit status of the compiler: whenever the
  compiler starts, \<open>build\<close> returns \<open>None\<close>, and two runs whose compilers write the same
  text give the same result whatever their exit statuses are.
\<close>

theorem build_does_not_read_exit_status:
  assumes "Popen1 BUILD_PROCESS = Inr p1" and "Popen2 BUILD_PROCESS = Inr p2"
    and "stdout_data p1 = stdout_data p2" and "stderr_data p1 = stderr_data p2"
  shows "build Popen1 start finish io = build Popen2 start finish io \<and>
         fst (build Popen1 start finish io) = Inr PNone"
  using assms by (simp add: build_started)

theorem build_does_not_read_exit_status_witness:
  "build (started \<lparr>returncode = 0, stdout_data = ''ok'', stderr_data = ''warning''\<rparr>)
       nine_oclock five_past_nine quiet
     = build (started \<lparr>returncode = 2, stdout_data = ''ok'', stderr_data = ''warning''\<rparr>)
       nine_oclock five_past_nine quiet \<and>
   fst (build (started \<lparr>returncode = 0, stdout_data = ''ok'', stderr_data = ''warning''\<rparr>)
       nine_oclock five_past_nine quiet) = Inr PNone"
proof -
  let ?p1 = "\<lparr>returncode = 0, stdout_data = ''ok'', stderr_data = ''warning''\<rparr>"
  let ?p2 = "\<lparr>returncode = 2, stdout_data = ''ok'', stderr_data = ''warning''\<rparr>"
  have a: "started ?p1 BUILD_PROCESS = Inr ?p1" by (simp add: started_def)
  have b: "started ?p2 BUILD_PROCESS = Inr ?p2" by (simp add: started_def)
  have c: "stdout_data ?p1 = stdout_data ?p2" by simp
  have d: "stderr_data ?p1 = stderr_data ?p2" by simp
  show ?thesis
    using build_does_not_read_exit_status
      [of "started ?p1" ?p1 "started ?p2" ?p2 nine_oclock five_past_nine quiet] a b c d
    by blast
qed

lemma str_nine_oclock: "str_time nine_oclock = ''09:00:00''"
  by code_simp

lemma str_five_past_nine: "str_time five_past_nine = ''09:05:07.000250''"
  by code_simp

text \<open>
  C2, as stated, asks for a result record with a success flag and both captured streams.
  A compiler that exits with status 1 and writes \<open>syntax error\<close> to its standard error
  makes \<open>build\<close> return \<open>None\<close>; the text it prints has \<open>None\<close> where the captured
  standard error would be, and the compiler's message has gone to the runner's own
  standard error.
\<close>

theorem build_returns_none_and_prints_none_for_stderr:
  "build (started \<lparr>returncode = 1, stdout_data = '''', stderr_data = ''syntax error''\<rparr>)
       nine_oclock five_past_nine quiet
     = (Inr PNone,
        \<lparr>printed = ''09:00:00 Start compilation'' @ [newline]
           @ repr_str_list BUILD_PROCESS @ [newline]
           @ [newline]
           @ ''None'' @ [newline]
           @ ''09:05:07.000250 Finished compilation'' @ [newline],
         errors = ''syntax error''\<rparr>)"
  by (simp add: build_started started_def str_nine_oclock str_five_past_nine quiet_def)

text \<open>
  C2, amended. Whenever the compiler starts, \<open>build\<close> returns \<open>None\<close>; what it prints
  begins with the start time, the argument vector and the whole of the compiler's
  standard output, and ends with the finish time.
\<close>

theorem build_prints_times_and_output:
  assumes "Popen BUILD_PROCESS = Inr p"
  shows "fst (build Popen start finish io) = Inr PNone \<and>
         prefix (printed io @ str_time start @ '' Start compilation'' @ [newline]
                   @ repr_str_list BUILD_PROCESS @ [newline]
                   @ stdout_data p @ [newline])
                (printed (snd (build Popen start finish io))) \<and>
         suffix (str_time finish @ '' Finished compilation'' @ [newline])
                (printed (snd (build Popen start finish io)))"
proof -
  note b = build_started [of Popen p start finish io]
  have s: "suffix (str_time finish @ '' Finished compilation'' @ [newline])
             (printed (snd (build Popen start finish io)))"
    unfolding suffix_def
    by (rule exI [of _ "printed io @ str_time start @ '' Start compilation'' @ [newline]
        @ repr_str_list BUILD_PROCESS @ [newline] @ stdout_data p @ [newline] @ ''None'' @ [newline]"])
      (simp add: b assms)
  show ?thesis using s by (simp add: b assms)
qed

theorem build_prints_times_and_output_witness:
  "fst (build (started \<lparr>returncode = 0, stdout_data = ''done'', stderr_data = ''''\<rparr>)
          nine_oclock five_past_nine quiet) = Inr PNone \<and>
   prefix (''09:00:00 Start compilation'' @ [newline] @ repr_str_list BUILD_PROCESS @ [newline]
             @ ''done'' @ [newline])
     (printed (snd (build (started \<lparr>returncode = 0, stdout_data = ''done'', stderr_data = ''''\<rparr>)
          nine_oclock five_past_nine quiet))) \<and>
   suffix (''09:05:07.000250 Finished compilation'' @ [newline])
     (printed (snd (build (started \<lparr>returncode = 0, stdout_data = ''done'', stderr_data = ''''\<rparr>)
          nine_oclock five_past_nine quiet)))"
proof -
  let ?p = "\<lparr>returncode = 0, stdout_data = ''done'', stderr_data = ''''\<rparr>"
  have a: "started ?p BUILD_PROCESS = Inr ?p" by (simp add: started_def)
  show ?thesis
    using build_prints_times_and_output [of "started ?p" ?p nine_oclock five_past_nine quiet] a
    by (simp add: str_nine_oclock str_five_past_nine quiet_def)
qed

subsection \<open>env\<close>

lemma dumps_empty_dict: "dumps limit (PDict []) = Inr ''{}''"
  by (simp add: dumps_def)

lemma dumps_none: "dumps limit PNone = Inr ''null''"
  by (simp add: dumps_def)

lemma encode_nest_too_deep: "d \<le> n \<Longrightarrow> encode d (nest n) = Inl RuntimeError"
proof (induction n arbitrary: d)
  case 0
  then show ?case by simp
next
  case (Suc n)
  show ?case
  proof (cases "d = 0")
    case True
    then show ?thesis by simp
  next
    case False
    with Suc.prems have "d - 1 \<le> n" by simp
    then have "encode (d - 1) (nest n) = Inl RuntimeError" by (rule Suc.IH)
    with False show ?thesis by simp
  qed
qed

lemma dumps_nest_too_deep: "limit < n \<Longrightarrow> dumps limit (nest n) = Inl RuntimeError"
  by (simp add: dumps_def encode_nest_too_deep)

lemma run_args_dict:
  "run_args (PDict kvs) = Inr (case map_of kvs ''value'' of Some v \<Rightarrow> v | None \<Rightarrow> PDict [])"
  by (cases kvs) (simp_all add: run_args_def)

lemma run_args_falsy: "\<not> truthy message \<Longrightarrow> run_args message = Inr (PDict [])"
  by (simp add: run_args_def)

lemma run_args_not_dict:
  "truthy message \<Longrightarrow> \<forall>kvs. message \<noteq> PDict kvs \<Longrightarrow> run_args message = Inl AttributeError"
  by (cases message) (simp_all add: run_args_def)

lemma env_returns:
  assumes "base message h = (Inr a, h1)" and "run_args message = Inr args"
    and "dumps limit args = Inr text"
  shows "env base limit message h = (Inr a, setitem a ''WHISK_INPUT'' text h1)"
  using assms by (simp add: env_def)

lemma env_raises_base:
  assumes "base message h = (Inl exn, h1)"
  shows "env base limit message h = (Inl exn, h1)"
  using assms by (simp add: env_def)

lemma env_raises_args:
  assumes "base message h = (Inr a, h1)" and "run_args message = Inl exn"
  shows "env base limit message h = (Inl exn, h1)"
  using assms by (simp add: env_def)

lemma env_raises_dumps:
  assumes "base message h = (Inr a, h1)" and "run_args message = Inr args"
    and "dumps limit args = Inl exn"
  shows "env base limit message h = (Inl exn, h1)"
  using assms by (simp add: env_def)

lemma setitem_lookup: "setitem a k v h a k = Some v"
  by (simp add: setitem_def)

lemma quoted_x: "encode_basestring_ascii ''x'' = [CHR 0x22, CHR ''x'', CHR 0x22]"
  by code_simp

lemma str_int_1: "str_int 1 = ''1''"
  by code_simp

lemma str_int_2: "str_int 2 = ''2''"
  by code_simp

lemma dumps_x_1:
  "dumps limit (PDict [(''x'', PInt 1)]) = Inr (''{'' @ [CHR 0x22] @ ''x'' @ [CHR 0x22] @ '': 1}'')"
  by (simp add: dumps_def quoted_x str_int_1)

lemma dumps_x_2:
  "dumps limit (PDict [(''x'', PInt 2)]) = Inr (''{'' @ [CHR 0x22] @ ''x'' @ [CHR 0x22] @ '': 2}'')"
  by (simp add: dumps_def quoted_x str_int_2)



lemma env_inversion:
  assumes "env base limit message h = (Inr b, h2)"
  shows "\<exists>h1 args enc. base message h = (Inr b, h1) \<and> run_args message = Inr args
           \<and> dumps limit args = Inr enc \<and> h2 = setitem b ''WHISK_INPUT'' enc h1"
  using assms by (auto simp: env_def split: prod.splits sum.splits)

text \<open>
  C4, as stated, asks that the base environment is never changed and that each call
  returns a fresh mapping. With a base class that hands out the ambient dictionary (at
  address 0, without \<open>WHISK_INPUT\<close>), the first call returns that very dictionary and has
  bound \<open>WHISK_INPUT\<close> in it; the second call returns it again and has replaced the
  binding, so the environment of the first call now holds the second payload.
\<close>

theorem env_second_call_overwrites_first_environment:
  "fst (env (returns_dict 0) 990 (PDict [(''value'', PDict [(''x'', PInt 1)])]) ambient) = Inr 0 \<and>
   ambient 0 ''WHISK_INPUT'' = None \<and>
   snd (env (returns_dict 0) 990 (PDict [(''value'', PDict [(''x'', PInt 1)])]) ambient)
       0 ''WHISK_INPUT'' = Some (''{'' @ [CHR 0x22] @ ''x'' @ [CHR 0x22] @ '': 1}'') \<and>
   fst (env (returns_dict 0) 990 (PDict [(''value'', PDict [(''x'', PInt 2)])])
         (snd (env (returns_dict 0) 990 (PDict [(''value'', PDict [(''x'', PInt 1)])]) ambient)))
       = Inr 0 \<and>
   snd (env (returns_dict 0) 990 (PDict [(''value'', PDict [(''x'', PInt 2)])])
         (snd (env (returns_dict 0) 990 (PDict [(''value'', PDict [(''x'', PInt 1)])]) ambient)))
       0 ''WHISK_INPUT'' = Some (''{'' @ [CHR 0x22] @ ''x'' @ [CHR 0x22] @ '': 2}'')"
proof -
  let ?m1 = "PDict [(''value'', PDict [(''x'', PInt 1)])]"
  let ?m2 = "PDict [(''value'', PDict [(''x'', PInt 2)])]"
  let ?e1 = "''{'' @ [CHR 0x22] @ ''x'' @ [CHR 0x22] @ '': 1}''"
  let ?e2 = "''{'' @ [CHR 0x22] @ ''x'' @ [CHR 0x22] @ '': 2}''"
  have b: "\<And>m h. returns_dict 0 m h = (Inr 0, h)" by (simp add: returns_dict_def)
  have r1: "run_args ?m1 = Inr (PDict [(''x'', PInt 1)])" by (simp add: run_args_dict)
  have r2: "run_args ?m2 = Inr (PDict [(''x'', PInt 2)])" by (simp add: run_args_dict)
  have e1: "env (returns_dict 0) 990 ?m1 ambient = (Inr 0, setitem 0 ''WHISK_INPUT'' ?e1 ambient)"
    using b r1 dumps_x_1 by (rule env_returns)
  have e2: "env (returns_dict 0) 990 ?m2 (setitem 0 ''WHISK_INPUT'' ?e1 ambient)
              = (Inr 0, setitem 0 ''WHISK_INPUT'' ?e2 (setitem 0 ''WHISK_INPUT'' ?e1 ambient))"
    using b r2 dumps_x_2 by (rule env_returns)
  have a: "ambient 0 ''WHISK_INPUT'' = None" by (simp add: ambient_def)
  show ?thesis
    by (simp only: e1 e2 a fst_conv snd_conv setitem_lookup simp_thms)
qed

text \<open>
  C4, amended. \<open>env\<close> returns the dictionary that the base class returned, with
  \<open>WHISK_INPUT\<close> bound in place: every other key of that dictionary and every other
  object of the store are as the base class left them.
\<close>

theorem env_binds_in_place:
  assumes "base message h = (Inr a, h1)" and "env base limit message h = (Inr b, h2)"
  shows "b = a \<and> (\<exists>enc. h2 a ''WHISK_INPUT'' = Some enc)
           \<and> (\<forall>k. k \<noteq> ''WHISK_INPUT'' \<longrightarrow> h2 a k = h1 a k)
           \<and> (\<forall>c. c \<noteq> a \<longrightarrow> h2 c = h1 c)"
proof -
  from env_inversion [of base limit message h b h2] assms(2)
  obtain h1' args enc where i: "base message h = (Inr b, h1')"
      "h2 = setitem b ''WHISK_INPUT'' enc h1'" by blast
  from i(1) assms(1) have "b = a" "h1' = h1" by simp_all
  with i(2) show ?thesis by (simp add: setitem_def)
qed

theorem env_binds_in_place_witness:
  "(\<exists>enc. snd (env (returns_dict 0) 990 (PDict [(''value'', PDict [(''x'', PInt 1)])]) ambient)
          0 ''WHISK_INPUT'' = Some enc) \<and>
   snd (env (returns_dict 0) 990 (PDict [(''value'', PDict [(''x'', PInt 1)])]) ambient)
       0 ''PATH'' = Some ''/usr/bin'' \<and>
   snd (env (returns_dict 0) 990 (PDict [(''value'', PDict [(''x'', PInt 1)])]) ambient) 1
     = ambient 1"
proof -
  let ?m1 = "PDict [(''value'', PDict [(''x'', PInt 1)])]"
  let ?e1 = "''{'' @ [CHR 0x22] @ ''x'' @ [CHR 0x22] @ '': 1}''"
  have b: "returns_dict 0 ?m1 ambient = (Inr 0, ambient)" by (simp add: returns_dict_def)
  have r1: "run_args ?m1 = Inr (PDict [(''x'', PInt 1)])" by (simp add: run_args_dict)
  have e1: "env (returns_dict 0) 990 ?m1 ambient = (Inr 0, setitem 0 ''WHISK_INPUT'' ?e1 ambient)"
    using b r1 dumps_x_1 by (rule env_returns)
  have p: "ambient 0 ''PATH'' = Some ''/usr/bin''" by (simp add: ambient_def)
  have n: "''PATH'' \<noteq> ''WHISK_INPUT''" by simp
  have o: "(1::nat) \<noteq> 0" by simp
  show ?thesis
    using env_binds_in_place
      [of "returns_dict 0" ?m1 ambient 0 ambient 990 0 "setitem 0 ''WHISK_INPUT'' ?e1 ambient"]
      b e1 p n o
    by (metis snd_conv)
qed

text \<open>
  C8, as stated, leaves serialisation as the only failure. A message that is a
  non-empty list has no \<open>get\<close>: \<open>env\<close> raises \<open>AttributeError\<close>, although every value in the
  message can be serialised.
\<close>

theorem env_raises_for_a_list:
  "fst (env (returns_dict 0) 990 (PList [PInt 1]) ambient) = Inl AttributeError \<and>
   dumps 990 (PList [PInt 1]) = Inr ''[1]''"
proof -
  have d: "dumps 990 (PList [PInt 1]) = Inr ''[1]''" by (simp add: dumps_def str_int_1)
  have b: "returns_dict 0 (PList [PInt 1]) ambient = (Inr 0, ambient)" by (simp add: returns_dict_def)
  have r: "run_args (PList [PInt 1]) = Inl AttributeError" by (simp add: run_args_def)
  have "env (returns_dict 0) 990 (PList [PInt 1]) ambient = (Inl AttributeError, ambient)"
    using b r by (rule env_raises_args)
  with d show ?thesis by simp
qed

text \<open>
  C8, amended. \<open>env\<close> raises exactly when the base class raises, or the message is
  truthy and not a dictionary (\<open>AttributeError\<close>), or \<open>json.dumps\<close> raises on the payload
  under \<open>value\<close>; \<open>env\<close> then raises the error that \<open>json.dumps\<close> raised. When it raises,
  the store is as the base class left it: \<open>WHISK_INPUT\<close> has not been bound.
\<close>

theorem env_raises_iff:
  assumes "base message h = (r, h1)"
  shows "((\<exists>exn. fst (env base limit message h) = Inl exn) \<longleftrightarrow>
           (\<exists>exn. r = Inl exn)
           \<or> (truthy message \<and> (\<forall>kvs. message \<noteq> PDict kvs))
           \<or> (\<exists>kvs v exn. message = PDict kvs \<and> map_of kvs ''value'' = Some v
                 \<and> dumps limit v = Inl exn)) \<and>
         ((\<exists>exn. fst (env base limit message h) = Inl exn) \<longrightarrow>
            snd (env base limit message h) = h1) \<and>
         ((\<exists>a. r = Inr a) \<and> truthy message \<and> (\<forall>kvs. message \<noteq> PDict kvs) \<longrightarrow>
            fst (env base limit message h) = Inl AttributeError) \<and>
         (\<forall>kvs v exn. (\<exists>a. r = Inr a) \<and> message = PDict kvs
               \<and> map_of kvs ''value'' = Some v \<and> dumps limit v = Inl exn \<longrightarrow>
            fst (env base limit message h) = Inl exn)"
proof (cases r)
  case (Inl exn)
  then show ?thesis using env_raises_base [of base message h exn h1 limit] assms by simp
next
  case (Inr a)
  with assms have b: "base message h = (Inr a, h1)" by simp
  show ?thesis
  proof (cases "truthy message \<and> (\<forall>kvs. message \<noteq> PDict kvs)")
    case True
    then have "run_args message = Inl AttributeError" by (simp add: run_args_not_dict)
    with b have "env base limit message h = (Inl AttributeError, h1)" by (rule env_raises_args)
    with True Inr show ?thesis by auto
  next
    case False
    then have "\<not> truthy message \<or> (\<exists>kvs. message = PDict kvs)" by blast
    then show ?thesis
    proof
      assume f: "\<not> truthy message"
      then have nd: "\<And>kvs v. message = PDict kvs \<Longrightarrow> map_of kvs ''value'' \<noteq> Some v"
        by (cases message) auto
      from f have "run_args message = Inr (PDict [])" by (rule run_args_falsy)
      with b have "env base limit message h = (Inr a, setitem a ''WHISK_INPUT'' ''{}'' h1)"
        using dumps_empty_dict by (rule env_returns)
      with f nd Inr show ?thesis by auto
    next
      assume "\<exists>kvs. message = PDict kvs"
      then obtain kvs where m: "message = PDict kvs" by blast
      show ?thesis
      proof (cases "map_of kvs ''value''")
        case None
        then have "run_args message = Inr (PDict [])" using m by (simp add: run_args_dict)
        with b have "env base limit message h = (Inr a, setitem a ''WHISK_INPUT'' ''{}'' h1)"
          using dumps_empty_dict by (rule env_returns)
        with None m Inr show ?thesis by auto
      next
        case (Some v)
        then have ra: "run_args message = Inr v" using m by (simp add: run_args_dict)
        show ?thesis
        proof (cases "dumps limit v")
          case (Inl exn)
          have "env base limit message h = (Inl exn, h1)" using b ra Inl by (rule env_raises_dumps)
          with Some m Inr Inl show ?thesis by auto
        next
          case (Inr enc)
          have "env base limit message h = (Inr a, setitem a ''WHISK_INPUT'' enc h1)"
            using b ra Inr by (rule env_returns)
          with Some m Inr \<open>r = Inr a\<close> show ?thesis by auto
        qed
      qed
    qed
  qed
qed

theorem env_raises_iff_witness:
  "fst (env (returns_dict 0) 990 (PDict [(''value'', PObj 7)]) ambient) = Inl TypeError \<and>
   snd (env (returns_dict 0) 990 (PDict [(''value'', PObj 7)]) ambient) = ambient \<and>
   fst (env (returns_dict 0) 990 (PDict [(''value'', nest 1000)]) ambient) = Inl RuntimeError \<and>
   fst (env (returns_dict 0) 990 (PStr ''x'') ambient) = Inl AttributeError \<and>
   \<not> (\<exists>exn. fst (env (returns_dict 0) 990 (PDict [(''value'', PDict [(''x'', PInt 1)])])
                    ambient) = Inl exn)"
proof -
  let ?bad = "PDict [(''value'', PObj 7)]"
  let ?deep = "PDict [(''value'', nest 1000)]"
  let ?good = "PDict [(''value'', PDict [(''x'', PInt 1)])]"
  have b: "\<And>m. returns_dict 0 m ambient = (Inr 0, ambient)" by (simp add: returns_dict_def)
  have i: "\<exists>a. (Inr 0 :: error + nat) = Inr a" by blast
  have k: "(\<exists>a. (Inr 0 :: error + nat) = Inr a) \<and> ?bad = PDict [(''value'', PObj 7)]
             \<and> map_of [(''value'', PObj 7)] ''value'' = Some (PObj 7)
             \<and> dumps 990 (PObj 7) = Inl TypeError"
    by (simp add: dumps_def)
  have kd: "(\<exists>a. (Inr 0 :: error + nat) = Inr a) \<and> ?deep = PDict [(''value'', nest 1000)]
             \<and> map_of [(''value'', nest 1000)] ''value'' = Some (nest 1000)
             \<and> dumps 990 (nest 1000) = Inl RuntimeError"
    using dumps_nest_too_deep [of 990 1000] by simp
  have t: "truthy (PStr ''x'') \<and> (\<forall>kvs. PStr ''x'' \<noteq> PDict kvs)" by simp
  have g1: "\<not> (\<exists>exn. (Inr 0 :: error + nat) = Inl exn)" by simp
  have g2: "\<not> (truthy ?good \<and> (\<forall>kvs. ?good \<noteq> PDict kvs))" by simp
  have g3: "\<not> (\<exists>kvs v exn. ?good = PDict kvs \<and> map_of kvs ''value'' = Some v
                   \<and> dumps 990 v = Inl exn)"
  proof
    assume "\<exists>kvs v exn. ?good = PDict kvs \<and> map_of kvs ''value'' = Some v
              \<and> dumps 990 v = Inl exn"
    then obtain kvs v exn where "?good = PDict kvs" "map_of kvs ''value'' = Some v"
        "dumps 990 v = Inl exn" by blast
    then have "dumps 990 (PDict [(''x'', PInt 1)]) = Inl exn" by auto
    then show False by (simp only: dumps_x_1 sum.distinct)
  qed
  note bad = env_raises_iff [of "returns_dict 0" ?bad ambient "Inr 0" ambient 990, OF b]
  note deep = env_raises_iff [of "returns_dict 0" ?deep ambient "Inr 0" ambient 990, OF b]
  note str = env_raises_iff [of "returns_dict 0" "PStr ''x''" ambient "Inr 0" ambient 990, OF b]
  note good = env_raises_iff [of "returns_dict 0" ?good ambient "Inr 0" ambient 990, OF b]
  have c4: "fst (env (returns_dict 0) 990 ?bad ambient) = Inl TypeError"
    using bad [THEN conjunct2, THEN conjunct2, THEN conjunct2, rule_format, OF k] .
  have c5: "fst (env (returns_dict 0) 990 ?deep ambient) = Inl RuntimeError"
    using deep [THEN conjunct2, THEN conjunct2, THEN conjunct2, rule_format, OF kd] .
  have c2: "snd (env (returns_dict 0) 990 ?bad ambient) = ambient"
    using bad [THEN conjunct2, THEN conjunct1] c4 by (simp only: sum.inject simp_thms)
  have c3: "fst (env (returns_dict 0) 990 (PStr ''x'') ambient) = Inl AttributeError"
    using str [THEN conjunct2, THEN conjunct2, THEN conjunct1] i t by (rule mp [OF _ conjI])
  have c1: "\<not> (\<exists>exn. fst (env (returns_dict 0) 990 ?good ambient) = Inl exn)"
    using good [THEN conjunct1] g1 g2 g3 by (simp only: simp_thms)
  from c4 c2 c5 c3 c1 show ?thesis by (intro conjI)
qed

text \<open>
  C9. When the message has the key \<open>value\<close>, the payload is the value bound to it and
  the default is not used; when that value is \<open>None\<close>, \<open>WHISK_INPUT\<close> is bound to
  \<open>null\<close>, not to the text of the empty mapping.
\<close>

theorem env_value_none_gives_null:
  assumes "base (PDict kvs) h = (Inr a, h1)" and "map_of kvs ''value'' = Some v"
  shows "run_args (PDict kvs) = Inr v \<and>
         (v = PNone \<longrightarrow>
            env base limit (PDict kvs) h = (Inr a, setitem a ''WHISK_INPUT'' ''null'' h1)
            \<and> snd (env base limit (PDict kvs) h) a ''WHISK_INPUT'' = Some ''null''
            \<and> snd (env base limit (PDict kvs) h) a ''WHISK_INPUT'' \<noteq> Some ''{}'')"
proof (intro conjI impI)
  show r: "run_args (PDict kvs) = Inr v" using assms(2) by (simp add: run_args_dict)
  assume n: "v = PNone"
  have d: "dumps limit v = Inr ''null''" using n by (simp add: dumps_none)
  show e: "env base limit (PDict kvs) h = (Inr a, setitem a ''WHISK_INPUT'' ''null'' h1)"
    using assms(1) r d by (rule env_returns)
  show "snd (env base limit (PDict kvs) h) a ''WHISK_INPUT'' = Some ''null''"
    by (simp add: e setitem_lookup)
  then show "snd (env base limit (PDict kvs) h) a ''WHISK_INPUT'' \<noteq> Some ''{}''"
    by simp
qed

theorem env_value_none_gives_null_witness:
  "run_args (PDict [(''value'', PNone)]) = Inr PNone \<and>
   snd (env (returns_dict 0) 990 (PDict [(''value'', PNone)]) ambient) 0 ''WHISK_INPUT''
     = Some ''null''"
proof -
  have b: "returns_dict 0 (PDict [(''value'', PNone)]) ambient = (Inr 0, ambient)"
    by (simp add: returns_dict_def)
  have k: "map_of [(''value'', PNone)] ''value'' = Some PNone" by simp
  show ?thesis
    using env_value_none_gives_null
      [of "returns_dict 0" "[(''value'', PNone)]" ambient 0 ambient PNone 990] b k
    by blast
qed

end
